theory Spec2Isabelle
  imports Complex_Main
begin

section \<open>Membership subscription and billing: the data model\<close>

text \<open>
  The development embeds \<^verbatim>\<open>src/api/membership/models.py\<close> (the classes
  \<^verbatim>\<open>Membership\<close> and \<^verbatim>\<open>MembershipHistory\<close>) and the parts of
  \<^verbatim>\<open>src/api/auth/models.py\<close> they call (\<^verbatim>\<open>User.can_downgrade_membership\<close>,
  \<^verbatim>\<open>User.get_user_profile\<close>, \<^verbatim>\<open>User.stripe_subscribe\<close>).

  Monetary values are Python \<^verbatim>\<open>Decimal\<close>s. A \<^verbatim>\<open>Decimal\<close> is modelled by its value,
  a rational; its arithmetic, which rounds to the precision of the decimal context and can
  raise, is modelled in the section on the pricing calculator. Comparison is exact.
  A nullable column is an \<open>option\<close>. A foreign key is modelled by the object it refers to.
\<close>

type_synonym Decimal = rat

text \<open>\<^verbatim>\<open>datetime.date\<close>: only the three fields the code reads.\<close>

record date =
  year :: nat
  month :: nat
  day :: nat

text \<open>The exceptions that the embedded code can raise or let through.\<close>

datatype error =
    TypeError
  | AttributeError
  | DatabaseError
  | StripeError
  | InvalidOperation
  | DivisionByZero
  | Overflow

text \<open>The columns of \<^verbatim>\<open>Membership\<close> (a catalogue entry, a tier).\<close>

record Membership =
  uuid :: string
  name :: string
  application_fee_percentage :: nat
  concierge_price :: "Decimal option"
  matchmaking_fee :: Decimal
  price_month :: "Decimal option"
  price_annual :: "Decimal option"
  project_price :: "Decimal option"
  stripe_monthly_product_name :: "string option"
  stripe_annual_product_name :: "string option"
  is_initial :: bool
  is_active :: bool

text \<open>The columns of \<^verbatim>\<open>User\<close> that the subscription code reads or writes.\<close>

record User =
  id_user :: nat
  profile_type :: string
  stripe_customer_token :: "string option"
  current_membership :: "Membership option"
  last_membership_downgrade_date :: "date option"
  last_membership_payment_date :: "date option"

text \<open>An entry of the history ledger, \<^verbatim>\<open>MembershipHistory\<close>.\<close>

record MembershipHistory =
  membership :: Membership
  user :: nat
  created_at :: nat
  stripe_subscription_id :: "string option"
  stripe_plan_id :: "string option"

section \<open>Classifying a transition\<close>

text \<open>
  \<^verbatim>\<open>Membership.is_downgrade(self, user)\<close>. The comparison \<^verbatim>\<open><\<close> of the last branch
  raises \<^verbatim>\<open>TypeError\<close> in Python when one of its operands is \<^verbatim>\<open>None\<close>.
\<close>

definition py_less :: "Decimal option \<Rightarrow> Decimal option \<Rightarrow> error + bool" where
  "py_less a b =
     (case a of
        None \<Rightarrow> Inl TypeError
      | Some x \<Rightarrow> (case b of None \<Rightarrow> Inl TypeError | Some y \<Rightarrow> Inr (x < y)))"

definition is_downgrade :: "Membership \<Rightarrow> User \<Rightarrow> error + bool" where
  "is_downgrade self usr =
     (case current_membership usr of
        None \<Rightarrow> Inr False
      | Some cm \<Rightarrow>
          if is_initial cm then Inr False
          else if is_initial self then Inr True
          else py_less (price_month self) (price_month cm))"

section \<open>Downgrade throttling\<close>

text \<open>
  \<^verbatim>\<open>User.can_downgrade_membership\<close>; the value of \<^verbatim>\<open>date.today()\<close> is the second
  argument.
\<close>

definition can_downgrade_membership :: "User \<Rightarrow> date \<Rightarrow> bool" where
  "can_downgrade_membership self today =
     (case last_membership_downgrade_date self of
        None \<Rightarrow> True
      | Some d \<Rightarrow> year d \<noteq> year today \<or> month d \<noteq> month today)"

section \<open>The pricing calculator\<close>


subsection \<open>Decimal arithmetic\<close>

text \<open>
  The code runs under the default context of the \<^verbatim>\<open>decimal\<close> module: a precision of 28
  significant digits, rounding half-even, exponents between \<^verbatim>\<open>Emin\<close> and \<^verbatim>\<open>Emax\<close>,
  and the traps \<^verbatim>\<open>InvalidOperation\<close>, \<^verbatim>\<open>DivisionByZero\<close> and \<^verbatim>\<open>Overflow\<close> set.
\<close>

definition prec :: int where
  "prec = 28"

definition Emax :: int where
  "Emax = 999999"

definition Emin :: int where
  "Emin = - 999999"

definition Etiny :: int where
  "Etiny = Emin - prec + 1"

text \<open>The number of decimal digits of a natural number (one for zero).\<close>

fun ndigits :: "nat \<Rightarrow> nat" where
  "ndigits n = (if n < 10 then 1 else Suc (ndigits (n div 10)))"

declare ndigits.simps [simp del]

text \<open>
  \<^verbatim>\<open>Decimal.adjusted()\<close>: the exponent of the leading digit of a value other than zero,
  the \<open>e\<close> with \<open>10 powi e \<le> \<bar>x\<bar> < 10 powi (e + 1)\<close>.
\<close>

definition adjusted :: "rat \<Rightarrow> int" where
  "adjusted x =
     (if 1 \<le> \<bar>x\<bar> then int (ndigits (nat \<lfloor>\<bar>x\<bar>\<rfloor>)) - 1
      else - int (ndigits (nat (\<lceil>1 / \<bar>x\<bar>\<rceil> - 1))))"

text \<open>Rounding to the nearest integer, a tie going to the even one.\<close>

definition round_half_even :: "rat \<Rightarrow> int" where
  "round_half_even x =
     (let f = \<lfloor>x\<rfloor>; d = x - of_int f
      in if d < 1 / 2 then f
         else if 1 / 2 < d then f + 1
         else if even f then f else f + 1)"

text \<open>
  What every arithmetic operation does to its exact result: the result is rounded to
  \<open>prec\<close> significant digits, its last digit no lower than \<open>Etiny\<close>, and the operation
  raises \<^verbatim>\<open>Overflow\<close> when the leading digit of the rounded result is above \<open>Emax\<close>.
\<close>

definition fix_context :: "rat \<Rightarrow> error + Decimal" where
  "fix_context x =
     (if x = 0 then Inr 0
      else
        (let q = max (adjusted x - (prec - 1)) Etiny;
             r = of_int (round_half_even (x / 10 powi q)) * 10 powi q
         in if r \<noteq> 0 \<and> Emax < adjusted r then Inl Overflow else Inr r))"

definition Decimal_add :: "Decimal \<Rightarrow> Decimal \<Rightarrow> error + Decimal" where
  "Decimal_add x y = fix_context (x + y)"



text \<open>The nearest multiple of a hundredth, half-even.\<close>

definition quantize_2 :: "rat \<Rightarrow> rat" where
  "quantize_2 x = of_int (round_half_even (x * 100)) / 100"

text \<open>
  \<^verbatim>\<open>round(x, ndigits=2)\<close> on a \<^verbatim>\<open>Decimal\<close> is \<^verbatim>\<open>x.quantize(Decimal('1E-2'))\<close>: the
  value is rounded to two places, half-even, and the call raises \<^verbatim>\<open>InvalidOperation\<close>
  when the rounded coefficient has more than \<open>prec\<close> digits.
\<close>

definition round_2 :: "Decimal \<Rightarrow> error + Decimal" where
  "round_2 x =
     (if 10 ^ nat prec \<le> \<bar>round_half_even (x * 100)\<bar> then Inl InvalidOperation
      else Inr (quantize_2 x))"



subsection \<open>The price breakdown\<close>




subsection \<open>The range of the amounts\<close>



section \<open>The payment gateway\<close>

text \<open>
  The code reaches the gateway through the \<^verbatim>\<open>stripe\<close> client library. A plan is read
  by its keys \<^verbatim>\<open>"id"\<close> and \<^verbatim>\<open>"name"\<close>, a subscription by its key \<^verbatim>\<open>"id"\<close>.
\<close>

record Plan =
  id_plan :: string
  name_plan :: string

record Subscription =
  id_subscription :: string

text \<open>
  A request sent to the gateway: \<^verbatim>\<open>stripe.Plan.list()\<close>, or
  \<^verbatim>\<open>stripe.Subscription.create(customer, items, metadata)\<close> with the plans of its items
  and the metadata it carries, if any.
\<close>

datatype stripe_call =
    Plan_list
  | Subscription_create "string option" "string list" "(string \<times> string) list option"

text \<open>
  What the gateway answers. \<open>None\<close> stands for a call that raises an error of the client
  library (network, authentication, invalid request).
\<close>

record stripe_api =
  plan_list_response :: "Plan list option"
  subscription_create_response :: "string option \<Rightarrow> string list \<Rightarrow> Subscription option"

section \<open>Persistence\<close>

text \<open>
  Modelled from the spec: the model class of the packages a freelancer posts is not among
  the sources; the specification describes it as a related entity owned by the freelancer
  profile, and the code reaches it as \<^verbatim>\<open>package_set\<close> of the profile and writes its
  column \<^verbatim>\<open>is_active\<close>.
\<close>

record Package =
  id_package :: nat
  freelancer :: nat
  is_active_package :: bool

text \<open>
  The tables the subscription code touches: the users by primary key, the profile rows
  (model label and \<^verbatim>\<open>user_ptr\<close>), the packages, and the history ledger in insertion
  order.
\<close>

record database =
  users :: "nat \<Rightarrow> User option"
  profiles :: "(string \<times> nat) list"
  packages :: "Package list"
  history :: "MembershipHistory list"

text \<open>
  What one call of \<^verbatim>\<open>subscribe\<close> does, in order: entering and leaving the
  \<^verbatim>\<open>transaction.atomic\<close> block, the requests to the gateway, and the statements sent
  to the database. A request or a statement is recorded when it is sent, whether it then
  succeeds or raises.
\<close>

datatype event =
    Atomic_enter
  | Atomic_commit
  | Atomic_rollback
  | Stripe_call stripe_call
  | Package_set_update nat
  | User_save nat "string list"
  | MembershipHistory_create nat

text \<open>
  The result of a call: the exception raised (\<open>None\<close> when the call returns), the user
  object the caller holds, the database, and the events.
\<close>

record result =
  raised :: "error option"
  user_after :: User
  db_after :: database
  events :: "event list"

definition PROFILE_TYPES :: "(string \<times> string) list" where
  "PROFILE_TYPES =
     [(''client'', ''client''), (''freelancer'', ''freelancer''), (''adviser'', ''adviser'')]"

definition PROFILE_TYPES_MAP :: "(string \<times> string) list" where
  "PROFILE_TYPES_MAP =
     [(''client'', ''auth.ClientProfile''),
      (''freelancer'', ''auth.FreelancerProfile''),
      (''adviser'', ''auth.AdviserProfile'')]"

text \<open>
  \<^verbatim>\<open>get_profile_type_display\<close> is generated by the framework from the choices of the
  field: the label of the stored value, or the value itself when it is not a choice.
\<close>

definition get_profile_type_display :: "User \<Rightarrow> string" where
  "get_profile_type_display self =
     (case map_of PROFILE_TYPES (profile_type self) of
        None \<Rightarrow> profile_type self
      | Some label \<Rightarrow> label)"

text \<open>\<^verbatim>\<open>User.get_user_profile\<close>: the first profile row of the user's profile class.\<close>

definition get_user_profile :: "database \<Rightarrow> User \<Rightarrow> (string \<times> nat) option" where
  "get_user_profile dbs self =
     (let profile_type_name = get_profile_type_display self
      in if profile_type_name = [] then None
         else (case map_of PROFILE_TYPES_MAP profile_type_name of
                 None \<Rightarrow> None
               | Some profile_class_name \<Rightarrow>
                   if profile_class_name = [] then None
                   else find (\<lambda>row. row = (profile_class_name, id_user self))
                          (profiles dbs)))"

text \<open>\<^verbatim>\<open>profile.package_set.update(is_active=v)\<close>.\<close>

definition package_set_update :: "string \<times> nat \<Rightarrow> bool \<Rightarrow> database \<Rightarrow> database" where
  "package_set_update profile v dbs =
     dbs\<lparr>packages :=
       map (\<lambda>p. if freelancer p = snd profile then p\<lparr>is_active_package := v\<rparr> else p)
         (packages dbs)\<rparr>"

text \<open>
  \<^verbatim>\<open>user.save(update_fields=fs)\<close> writes the listed columns of the user's row, and
  raises \<^verbatim>\<open>DatabaseError\<close> when no row has the user's key.
\<close>

definition write_fields :: "User \<Rightarrow> string list \<Rightarrow> User \<Rightarrow> User" where
  "write_fields usr update_fields row =
     row\<lparr>current_membership :=
           (if ''current_membership'' \<in> set update_fields
            then current_membership usr else current_membership row),
         last_membership_downgrade_date :=
           (if ''last_membership_downgrade_date'' \<in> set update_fields
            then last_membership_downgrade_date usr
            else last_membership_downgrade_date row)\<rparr>"

definition save :: "User \<Rightarrow> string list \<Rightarrow> database \<Rightarrow> error + database" where
  "save usr update_fields dbs =
     (case users dbs (id_user usr) of
        None \<Rightarrow> Inl DatabaseError
      | Some row \<Rightarrow>
          Inr (dbs\<lparr>users := (users dbs)(id_user usr \<mapsto> write_fields usr update_fields row)\<rparr>))"

text \<open>
  \<^verbatim>\<open>MembershipHistory.objects.create(...)\<close>; \<^verbatim>\<open>created_at\<close> has
  \<^verbatim>\<open>auto_now_add\<close>, so it is the reading of the clock at the insertion.
\<close>

definition MembershipHistory_objects_create ::
  "nat \<Rightarrow> User \<Rightarrow> Membership \<Rightarrow> string option \<Rightarrow> string option \<Rightarrow> database \<Rightarrow> database" where
  "MembershipHistory_objects_create now usr m plan_id subscription_id dbs =
     dbs\<lparr>history := history dbs @
       [\<lparr>membership = m, user = id_user usr, created_at = now,
         stripe_subscription_id = subscription_id, stripe_plan_id = plan_id\<rparr>]\<rparr>"

section \<open>The subscription state machine\<close>

text \<open>
  \<^verbatim>\<open>Membership.get_stripe_plan\<close>: the first plan of the gateway's list whose name is one
  of \<^verbatim>\<open>stripe_product_names\<close>, or \<^verbatim>\<open>None\<close> (after logging) when there is none.
\<close>

definition get_stripe_plan :: "stripe_api \<Rightarrow> Membership \<Rightarrow> (error + Plan option) \<times> event list" where
  "get_stripe_plan api self =
     (if is_initial self then (Inr None, [])
      else
        (let stripe_product_names = [stripe_monthly_product_name self]
         in case plan_list_response api of
              None \<Rightarrow> (Inl StripeError, [Stripe_call Plan_list])
            | Some plans \<Rightarrow>
                (Inr (find (\<lambda>plan. Some (name_plan plan) \<in> set stripe_product_names) plans),
                 [Stripe_call Plan_list])))"

text \<open>
  \<^verbatim>\<open>User.stripe_subscribe(self, stripe_plan_id, metadata)\<close>, the plan's id being
  \<open>plan_id\<close> here. The body passes
  \<^verbatim>\<open>customer\<close> and \<^verbatim>\<open>items\<close> to the gateway and nothing else.
\<close>

definition stripe_subscribe ::
  "stripe_api \<Rightarrow> User \<Rightarrow> string \<Rightarrow> (string \<times> string) list option
     \<Rightarrow> (error + Subscription) \<times> event list" where
  "stripe_subscribe api self plan_id metadata =
     (let customer = stripe_customer_token self; items = [plan_id]
      in (case subscription_create_response api customer items of
            None \<Rightarrow> Inl StripeError
          | Some subscription \<Rightarrow> Inr subscription,
          [Stripe_call (Subscription_create customer items None)]))"

text \<open>
  The last three statements of \<^verbatim>\<open>subscribe\<close>: the pointer is set on the user object,
  the user is saved, the ledger entry is created.
\<close>

definition persist ::
  "nat \<Rightarrow> Membership \<Rightarrow> User \<Rightarrow> string list \<Rightarrow> string option \<Rightarrow> string option
     \<Rightarrow> database \<Rightarrow> event list \<Rightarrow> result" where
  "persist now self usr update_fields plan_id subscription_id dbs evs =
     (let usr' = usr\<lparr>current_membership := Some self\<rparr>
      in case save usr' update_fields dbs of
           Inl e \<Rightarrow>
             \<lparr>raised = Some e, user_after = usr', db_after = dbs,
              events = evs @ [User_save (id_user usr') update_fields]\<rparr>
         | Inr dbs' \<Rightarrow>
             \<lparr>raised = None, user_after = usr',
              db_after = MembershipHistory_objects_create now usr' self plan_id subscription_id dbs',
              events = evs @ [User_save (id_user usr') update_fields,
                              MembershipHistory_create (id_user usr')]\<rparr>)"

text \<open>
  The body of \<^verbatim>\<open>Membership.subscribe(self, user)\<close>, without its decorator. The
  arguments \<open>today\<close> and \<open>now\<close> are the readings of \<^verbatim>\<open>date.today()\<close> and of the
  clock.
\<close>

definition subscribe_body ::
  "stripe_api \<Rightarrow> date \<Rightarrow> nat \<Rightarrow> Membership \<Rightarrow> User \<Rightarrow> database \<Rightarrow> result" where
  "subscribe_body api today now self usr dbs =
     (case is_downgrade self usr of
        Inl e \<Rightarrow> \<lparr>raised = Some e, user_after = usr, db_after = dbs, events = []\<rparr>
      | Inr True \<Rightarrow>
          (let usr1 = usr\<lparr>last_membership_downgrade_date := Some today\<rparr>;
               update_fields = [''current_membership'', ''last_membership_downgrade_date'']
           in if profile_type usr1 = ''freelancer'' then
                (case get_user_profile dbs usr1 of
                   None \<Rightarrow>
                     \<lparr>raised = Some AttributeError, user_after = usr1, db_after = dbs,
                      events = []\<rparr>
                 | Some profile \<Rightarrow>
                     persist now self usr1 update_fields None None
                       (package_set_update profile False dbs)
                       [Package_set_update (snd profile)])
              else persist now self usr1 update_fields None None dbs [])
      | Inr False \<Rightarrow>
          if \<not> is_initial self then
            (case get_stripe_plan api self of
               (Inl e, evs) \<Rightarrow>
                 \<lparr>raised = Some e, user_after = usr, db_after = dbs, events = evs\<rparr>
             | (Inr None, evs) \<Rightarrow>
                 \<lparr>raised = Some TypeError, user_after = usr, db_after = dbs, events = evs\<rparr>
             | (Inr (Some stripe_plan), evs) \<Rightarrow>
                 (case stripe_subscribe api usr (id_plan stripe_plan)
                         (Some [(''object_type'', ''membership''), (''uuid'', uuid self)]) of
                    (Inl e, evs') \<Rightarrow>
                      \<lparr>raised = Some e, user_after = usr, db_after = dbs,
                       events = evs @ evs'\<rparr>
                  | (Inr stripe_subscription, evs') \<Rightarrow>
                      persist now self usr [''current_membership'']
                        (Some (id_plan stripe_plan))
                        (Some (id_subscription stripe_subscription)) dbs (evs @ evs')))
          else persist now self usr [''current_membership''] None None dbs [])"

text \<open>
  \<^verbatim>\<open>Membership.subscribe\<close> as decorated with \<^verbatim>\<open>@transaction.atomic\<close>: the block is
  entered before the body runs; it commits when the body returns and rolls the database
  back when the body raises. The user object keeps what the body assigned to it.
\<close>

definition subscribe ::
  "stripe_api \<Rightarrow> date \<Rightarrow> nat \<Rightarrow> Membership \<Rightarrow> User \<Rightarrow> database \<Rightarrow> result" where
  "subscribe api today now self usr dbs =
     (let r = subscribe_body api today now self usr dbs
      in case raised r of
           None \<Rightarrow> r\<lparr>events := Atomic_enter # events r @ [Atomic_commit]\<rparr>
         | Some e \<Rightarrow> r\<lparr>db_after := dbs, events := Atomic_enter # events r @ [Atomic_rollback]\<rparr>)"

text \<open>The requests to the gateway among the events, and the statements to the database.\<close>

fun stripe_calls :: "event list \<Rightarrow> stripe_call list" where
  "stripe_calls [] = []"
| "stripe_calls (Stripe_call c # es) = c # stripe_calls es"
| "stripe_calls (e # es) = stripe_calls es"

fun is_db_write :: "event \<Rightarrow> bool" where
  "is_db_write (Package_set_update p) = True"
| "is_db_write (User_save u fs) = True"
| "is_db_write (MembershipHistory_create u) = True"
| "is_db_write e = False"

section \<open>Sample data\<close>

text \<open>
  A small catalogue (a free initial tier and two paid tiers), a fee schedule, a gateway
  that knows the plans of the paid tiers, and a database with a client and a freelancer.
  The theorems below are instantiated on them.
\<close>

definition free_tier :: Membership where
  "free_tier =
     \<lparr>uuid = ''m-free'', name = ''Free'', application_fee_percentage = 15,
      concierge_price = None, matchmaking_fee = 0, price_month = None, price_annual = None,
      project_price = None, stripe_monthly_product_name = None,
      stripe_annual_product_name = None, is_initial = True, is_active = True\<rparr>"

definition silver_tier :: Membership where
  "silver_tier =
     \<lparr>uuid = ''m-silver'', name = ''Silver'', application_fee_percentage = 10,
      concierge_price = Some 80, matchmaking_fee = 0, price_month = Some 10,
      price_annual = None, project_price = None,
      stripe_monthly_product_name = Some ''silver-monthly'',
      stripe_annual_product_name = None, is_initial = False, is_active = True\<rparr>"

definition gold_tier :: Membership where
  "gold_tier =
     \<lparr>uuid = ''m-gold'', name = ''Gold'', application_fee_percentage = 5,
      concierge_price = Some 50, matchmaking_fee = 0, price_month = Some 20,
      price_annual = None, project_price = None,
      stripe_monthly_product_name = Some ''gold-monthly'',
      stripe_annual_product_name = None, is_initial = False, is_active = True\<rparr>"


definition sample_client :: User where
  "sample_client =
     \<lparr>id_user = 1, profile_type = ''client'', stripe_customer_token = Some ''cus_1'',
      current_membership = None, last_membership_downgrade_date = None,
      last_membership_payment_date = None\<rparr>"

definition sample_freelancer :: User where
  "sample_freelancer =
     \<lparr>id_user = 2, profile_type = ''freelancer'', stripe_customer_token = Some ''cus_2'',
      current_membership = Some gold_tier, last_membership_downgrade_date = None,
      last_membership_payment_date = None\<rparr>"

definition sample_db :: database where
  "sample_db =
     \<lparr>users = [1 \<mapsto> sample_client, 2 \<mapsto> sample_freelancer],
      profiles = [(''auth.ClientProfile'', 1), (''auth.FreelancerProfile'', 2)],
      packages =
        [\<lparr>id_package = 1, freelancer = 2, is_active_package = True\<rparr>,
         \<lparr>id_package = 2, freelancer = 2, is_active_package = True\<rparr>],
      history =
        [\<lparr>membership = free_tier, user = 2, created_at = 100,
          stripe_subscription_id = None, stripe_plan_id = None\<rparr>,
         \<lparr>membership = gold_tier, user = 2, created_at = 200,
          stripe_subscription_id = Some ''sub_7'', stripe_plan_id = Some ''plan_gold''\<rparr>]\<rparr>"

definition sample_api :: stripe_api where
  "sample_api =
     \<lparr>plan_list_response =
        Some [\<lparr>id_plan = ''plan_silver'', name_plan = ''silver-monthly''\<rparr>,
              \<lparr>id_plan = ''plan_gold'', name_plan = ''gold-monthly''\<rparr>],
      subscription_create_response =
        (\<lambda>customer items. Some \<lparr>id_subscription = ''sub_8''\<rparr>)\<rparr>"

text \<open>A gateway that lists the plans and then refuses to create the subscription.\<close>

definition failing_api :: stripe_api where
  "failing_api =
     sample_api\<lparr>subscription_create_response := (\<lambda>customer items. None)\<rparr>"

definition sample_today :: date where
  "sample_today = \<lparr>year = 2024, month = 3, day = 20\<rparr>"

section \<open>Classification of a transition\<close>

text \<open>
  C1. For every user and target tier, \<open>is_downgrade\<close> returns false when the user has no
  current membership or the current membership is the initial tier; otherwise it returns
  true when the target tier is initial; otherwise it returns true exactly when the target's
  monthly price is strictly below the current tier's monthly price, so that equal monthly
  prices are not a downgrade. (A price that is not set compares to nothing: the call then
  returns neither true nor false, see C10.)
\<close>

theorem is_downgrade_classification:
  "(current_membership usr = None \<longrightarrow> is_downgrade self usr = Inr False) \<and>
   (\<forall>cm. current_membership usr = Some cm \<and> is_initial cm \<longrightarrow>
      is_downgrade self usr = Inr False) \<and>
   (\<forall>cm. current_membership usr = Some cm \<and> \<not> is_initial cm \<and> is_initial self \<longrightarrow>
      is_downgrade self usr = Inr True) \<and>
   (\<forall>cm. current_membership usr = Some cm \<and> \<not> is_initial cm \<and> \<not> is_initial self \<longrightarrow>
      (is_downgrade self usr = Inr True) =
      (\<exists>p q. price_month self = Some p \<and> price_month cm = Some q \<and> p < q)) \<and>
   (\<forall>cm p. current_membership usr = Some cm \<and> \<not> is_initial cm \<and> \<not> is_initial self \<and>
      price_month self = Some p \<and> price_month cm = Some p \<longrightarrow>
      is_downgrade self usr = Inr False)"
  by (auto simp: is_downgrade_def py_less_def split: option.splits)

theorem is_downgrade_classification_witness:
  "is_downgrade silver_tier sample_client = Inr False \<and>
   is_downgrade silver_tier (sample_client\<lparr>current_membership := Some free_tier\<rparr>) =
     Inr False \<and>
   is_downgrade free_tier sample_freelancer = Inr True \<and>
   is_downgrade silver_tier sample_freelancer = Inr True \<and>
   is_downgrade gold_tier sample_freelancer = Inr False"
  using is_downgrade_classification [of sample_client silver_tier]
    is_downgrade_classification
      [of "sample_client\<lparr>current_membership := Some free_tier\<rparr>" silver_tier]
    is_downgrade_classification [of sample_freelancer free_tier]
    is_downgrade_classification [of sample_freelancer silver_tier]
    is_downgrade_classification [of sample_freelancer gold_tier]
  by (simp add: sample_client_def sample_freelancer_def free_tier_def silver_tier_def
      gold_tier_def)

text \<open>
  C10. The price comparison of \<open>is_downgrade\<close> is partial: when the user's current tier
  and the target tier are both non-initial, the call raises a type error exactly when the
  monthly price of one of the two tiers is not set, and it returns a boolean exactly when
  both prices are set.
\<close>

theorem is_downgrade_partial:
  assumes "current_membership usr = Some cm" and "\<not> is_initial cm" and "\<not> is_initial self"
  shows "((is_downgrade self usr = Inl TypeError) =
            (price_month self = None \<or> price_month cm = None)) \<and>
         ((\<exists>b. is_downgrade self usr = Inr b) =
            (price_month self \<noteq> None \<and> price_month cm \<noteq> None))"
  using assms by (auto simp: is_downgrade_def py_less_def split: option.splits)

theorem is_downgrade_partial_witness:
  "is_downgrade (silver_tier\<lparr>price_month := None\<rparr>) sample_freelancer = Inl TypeError \<and>
   is_downgrade silver_tier
     (sample_freelancer\<lparr>current_membership := Some (gold_tier\<lparr>price_month := None\<rparr>)\<rparr>) =
     Inl TypeError \<and>
   is_downgrade silver_tier sample_freelancer = Inr True"
  using is_downgrade_partial
      [of sample_freelancer gold_tier "silver_tier\<lparr>price_month := None\<rparr>"]
    is_downgrade_partial
      [of "sample_freelancer\<lparr>current_membership := Some (gold_tier\<lparr>price_month := None\<rparr>)\<rparr>"
          "gold_tier\<lparr>price_month := None\<rparr>" silver_tier]
    is_downgrade_partial [of sample_freelancer gold_tier silver_tier]
  by (simp add: sample_freelancer_def silver_tier_def gold_tier_def is_downgrade_def
      py_less_def)

section \<open>The downgrade throttle\<close>

text \<open>
  C9. For every user, \<open>can_downgrade_membership\<close> is true exactly when the date of the last
  downgrade is unset, or its year differs from the current year, or its month differs from
  the current month. With a last downgrade on 2024-03-15 the check is false on 2024-03-20
  and true on 2024-04-01.
\<close>

theorem can_downgrade_once_per_month:
  "can_downgrade_membership usr today =
     (last_membership_downgrade_date usr = None \<or>
      (\<exists>d. last_membership_downgrade_date usr = Some d \<and>
           (year d \<noteq> year today \<or> month d \<noteq> month today))) \<and>
   \<not> can_downgrade_membership
       (usr\<lparr>last_membership_downgrade_date := Some \<lparr>year = 2024, month = 3, day = 15\<rparr>\<rparr>)
       \<lparr>year = 2024, month = 3, day = 20\<rparr> \<and>
   can_downgrade_membership
       (usr\<lparr>last_membership_downgrade_date := Some \<lparr>year = 2024, month = 3, day = 15\<rparr>\<rparr>)
       \<lparr>year = 2024, month = 4, day = 1\<rparr>"
  by (auto simp: can_downgrade_membership_def split: option.splits)

theorem can_downgrade_once_per_month_witness:
  "can_downgrade_membership sample_client sample_today \<and>
   \<not> can_downgrade_membership
       (sample_client
          \<lparr>last_membership_downgrade_date := Some \<lparr>year = 2024, month = 3, day = 15\<rparr>\<rparr>)
       \<lparr>year = 2024, month = 3, day = 20\<rparr> \<and>
   can_downgrade_membership
       (sample_client
          \<lparr>last_membership_downgrade_date := Some \<lparr>year = 2023, month = 3, day = 15\<rparr>\<rparr>)
       sample_today"
  using can_downgrade_once_per_month [of sample_client sample_today]
    can_downgrade_once_per_month
      [of "sample_client
             \<lparr>last_membership_downgrade_date := Some \<lparr>year = 2023, month = 3, day = 15\<rparr>\<rparr>"
          sample_today]
  by (simp add: sample_client_def sample_today_def)

section \<open>The price breakdown\<close>




























text \<open>
  Beyond the precision of the context the rounding to two places raises, and a sum of 29
  digits is rounded to 28, the tie going to the even neighbour.
\<close>

lemma round_2_raises: "round_2 (10 ^ 26) = Inl InvalidOperation"
  by (simp add: round_2_def round_half_even_def prec_def)

lemma ndigits_numeral:
  "ndigits (numeral k) =
     (if numeral k < (10::nat) then 1 else Suc (ndigits (numeral k div 10)))"
  by (rule ndigits.simps)

lemma ndigits_one: "ndigits (Suc 0) = Suc 0"
  by (subst ndigits.simps) simp

lemma ndigits_29: "ndigits 10000000000000000000000000005 = 29"
  by (simp add: ndigits_numeral ndigits_one)

lemma ndigits_29': "ndigits 10000000000000000000000000000 = 29"
  by (simp add: ndigits_numeral ndigits_one)

lemma Decimal_add_rounds: "Decimal_add (10 ^ 28) 5 = Inr (10 ^ 28)"
proof -
  define x :: rat where "x = 10000000000000000000000000005"
  have a: "adjusted x = 28"
    by (simp add: adjusted_def x_def ndigits_29)
  have q: "max (adjusted x - (prec - 1)) Etiny = 1"
    by (simp add: a prec_def Etiny_def Emin_def)
  have fl: "\<lfloor>x / 10\<rfloor> = 1000000000000000000000000000"
    by (rule floor_unique) (simp_all add: x_def)
  have rh: "round_half_even (x / 10) = 1000000000000000000000000000"
    by (simp add: round_half_even_def Let_def fl) (simp add: x_def)
  have a': "adjusted 10000000000000000000000000000 = 28"
    by (simp add: adjusted_def ndigits_29')
  have "fix_context x = Inr 10000000000000000000000000000"
    unfolding fix_context_def Let_def q
    by (simp add: rh a' Emax_def) (simp add: x_def)
  then show ?thesis
    by (simp add: Decimal_add_def x_def)
qed



section \<open>The subscription state machine: auxiliary facts\<close>

lemma stripe_calls_append: "stripe_calls (xs @ ys) = stripe_calls xs @ stripe_calls ys"
  by (induction xs rule: stripe_calls.induct) simp_all

lemma find_eq_member:
  "x \<in> set xs \<Longrightarrow> find (\<lambda>row. row = x) xs = Some x"
  by (induction xs) auto

lemma get_user_profile_freelancer:
  "profile_type usr = ''freelancer'' \<Longrightarrow>
   get_user_profile dbs usr =
     find (\<lambda>row. row = (''auth.FreelancerProfile'', id_user usr)) (profiles dbs)"
  by (simp add: get_user_profile_def get_profile_type_display_def PROFILE_TYPES_def
      PROFILE_TYPES_MAP_def)

lemma persist_saved:
  assumes "users dbs (id_user usr) = Some row"
  shows "persist now self usr fs plan_id sub_id dbs evs =
     \<lparr>raised = None,
      user_after = usr\<lparr>current_membership := Some self\<rparr>,
      db_after =
        dbs\<lparr>users := (users dbs)(id_user usr \<mapsto>
                 write_fields (usr\<lparr>current_membership := Some self\<rparr>) fs row),
            history := history dbs @
              [\<lparr>membership = self, user = id_user usr, created_at = now,
                stripe_subscription_id = sub_id, stripe_plan_id = plan_id\<rparr>]\<rparr>,
      events = evs @ [User_save (id_user usr) fs, MembershipHistory_create (id_user usr)]\<rparr>"
  using assms
  by (simp add: persist_def save_def MembershipHistory_objects_create_def Let_def)

lemma persist_unsaved:
  assumes "users dbs (id_user usr) = None"
  shows "persist now self usr fs plan_id sub_id dbs evs =
     \<lparr>raised = Some DatabaseError,
      user_after = usr\<lparr>current_membership := Some self\<rparr>,
      db_after = dbs,
      events = evs @ [User_save (id_user usr) fs]\<rparr>"
  using assms
  by (simp add: persist_def save_def Let_def)

text \<open>
  C2. For every user and target tier classified as a downgrade, \<open>subscribe\<close> sets the
  user's \<open>last_membership_downgrade_date\<close> to today's date (on the user object and in the
  user's row), deactivates all the packages of the user when the profile type is
  \<^verbatim>\<open>freelancer\<close>, sends no request to the payment gateway, and appends a ledger entry
  whose \<open>stripe_subscription_id\<close> and \<open>stripe_plan_id\<close> are both null. The user is a
  stored one (the row exists) and a freelancer has a profile row, as the call needs to return.
\<close>

theorem subscribe_downgrade:
  assumes "is_downgrade self usr = Inr True"
    and "users dbs (id_user usr) = Some row"
    and "profile_type usr = ''freelancer'' \<longrightarrow>
           (''auth.FreelancerProfile'', id_user usr) \<in> set (profiles dbs)"
    and "r = subscribe api today now self usr dbs"
  shows "raised r = None \<and>
     last_membership_downgrade_date (user_after r) = Some today \<and>
     users (db_after r) (id_user usr) =
       Some (row\<lparr>current_membership := Some self,
                 last_membership_downgrade_date := Some today\<rparr>) \<and>
     (profile_type usr = ''freelancer'' \<longrightarrow>
        packages (db_after r) =
          map (\<lambda>p. if freelancer p = id_user usr then p\<lparr>is_active_package := False\<rparr> else p)
            (packages dbs) \<and>
        (\<forall>p \<in> set (packages (db_after r)). freelancer p = id_user usr \<longrightarrow> \<not> is_active_package p)) \<and>
     (profile_type usr \<noteq> ''freelancer'' \<longrightarrow> packages (db_after r) = packages dbs) \<and>
     stripe_calls (events r) = [] \<and>
     history (db_after r) = history dbs @
       [\<lparr>membership = self, user = id_user usr, created_at = now,
         stripe_subscription_id = None, stripe_plan_id = None\<rparr>]"
proof (cases "profile_type usr = ''freelancer''")
  case True
  let ?usr1 = "usr\<lparr>last_membership_downgrade_date := Some today\<rparr>"
  let ?profile = "(''auth.FreelancerProfile'', id_user usr)"
  have "get_user_profile dbs ?usr1 = Some ?profile"
    using True assms(3) by (simp add: get_user_profile_freelancer find_eq_member)
  moreover have "users (package_set_update ?profile False dbs) (id_user ?usr1) = Some row"
    using assms(2) by (simp add: package_set_update_def)
  ultimately have "subscribe_body api today now self usr dbs =
      persist now self ?usr1 [''current_membership'', ''last_membership_downgrade_date'']
        None None (package_set_update ?profile False dbs) [Package_set_update (id_user usr)]"
    using True assms(1) by (simp add: subscribe_body_def Let_def)
  then show ?thesis
    using True assms(2,4)
    by (auto simp: subscribe_def Let_def persist_saved [where row = row]
        package_set_update_def write_fields_def)
next
  case False
  let ?usr1 = "usr\<lparr>last_membership_downgrade_date := Some today\<rparr>"
  have "subscribe_body api today now self usr dbs =
      persist now self ?usr1 [''current_membership'', ''last_membership_downgrade_date'']
        None None dbs []"
    using False assms(1) by (simp add: subscribe_body_def Let_def)
  then show ?thesis
    using False assms(2,4)
    by (simp add: subscribe_def Let_def persist_saved [where row = row] write_fields_def)
qed


theorem subscribe_downgrade_witness:
  "raised (subscribe sample_api sample_today 300 silver_tier sample_freelancer sample_db) = None \<and>
   last_membership_downgrade_date
     (user_after (subscribe sample_api sample_today 300 silver_tier sample_freelancer sample_db)) =
     Some sample_today \<and>
   packages (db_after (subscribe sample_api sample_today 300 silver_tier sample_freelancer sample_db)) =
     [\<lparr>id_package = 1, freelancer = 2, is_active_package = False\<rparr>,
      \<lparr>id_package = 2, freelancer = 2, is_active_package = False\<rparr>] \<and>
   stripe_calls (events (subscribe sample_api sample_today 300 silver_tier sample_freelancer sample_db)) = [] \<and>
   history (db_after (subscribe sample_api sample_today 300 silver_tier sample_freelancer sample_db)) =
     history sample_db @
       [\<lparr>membership = silver_tier, user = 2, created_at = 300,
         stripe_subscription_id = None, stripe_plan_id = None\<rparr>]"
proof -
  have a: "is_downgrade silver_tier sample_freelancer = Inr True"
    by (simp add: is_downgrade_def py_less_def sample_freelancer_def silver_tier_def gold_tier_def)
  have b: "users sample_db (id_user sample_freelancer) = Some sample_freelancer"
    by (simp add: sample_db_def sample_freelancer_def)
  have c: "profile_type sample_freelancer = ''freelancer'' \<longrightarrow>
      (''auth.FreelancerProfile'', id_user sample_freelancer) \<in> set (profiles sample_db)"
    by (simp add: sample_db_def sample_freelancer_def)
  show ?thesis
    using subscribe_downgrade [OF a b c refl, of sample_api sample_today 300]
    by (simp add: sample_db_def sample_freelancer_def)
qed

lemma stripe_calls_persist:
  "stripe_calls (events (persist now self usr fs p s dbs evs)) = stripe_calls evs"
  by (simp add: persist_def save_def Let_def stripe_calls_append split: option.splits)

lemma stripe_calls_subscribe:
  "stripe_calls (events (subscribe api today now self usr dbs)) =
   stripe_calls (events (subscribe_body api today now self usr dbs))"
  by (simp add: subscribe_def Let_def stripe_calls_append split: option.splits)

text \<open>
  C4. For every initial tier and every user, \<open>subscribe\<close> sends no request to the
  gateway, neither a plan listing nor a subscription creation; \<open>get_stripe_plan\<close> itself
  returns without a request for an initial tier.
\<close>

theorem subscribe_initial_no_gateway_call:
  assumes "is_initial self"
  shows "stripe_calls (events (subscribe api today now self usr dbs)) = [] \<and>
         get_stripe_plan api self = (Inr None, [])"
proof -
  have "is_downgrade self usr = Inr False \<or> is_downgrade self usr = Inr True"
    using assms by (auto simp: is_downgrade_def split: option.splits)
  then have "stripe_calls (events (subscribe_body api today now self usr dbs)) = []"
    using assms
    by (auto simp: subscribe_body_def Let_def stripe_calls_persist split: option.splits)
  then show ?thesis
    using assms by (simp add: stripe_calls_subscribe get_stripe_plan_def)
qed

theorem subscribe_initial_no_gateway_call_witness:
  "stripe_calls (events (subscribe sample_api sample_today 300 free_tier sample_client sample_db)) = [] \<and>
   stripe_calls (events (subscribe sample_api sample_today 300 free_tier sample_freelancer sample_db)) = [] \<and>
   raised (subscribe sample_api sample_today 300 free_tier sample_client sample_db) = None \<and>
   get_stripe_plan sample_api free_tier = (Inr None, [])"
proof -
  have a: "is_initial free_tier"
    by (simp add: free_tier_def)
  have b: "raised (subscribe sample_api sample_today 300 free_tier sample_client sample_db) = None"
    by code_simp
  show ?thesis
    using subscribe_initial_no_gateway_call [OF a, of sample_api sample_today 300 sample_client sample_db]
      subscribe_initial_no_gateway_call [OF a, of sample_api sample_today 300 sample_freelancer sample_db]
      b
    by simp
qed


lemma get_stripe_plan_not_initial:
  "\<not> is_initial self \<Longrightarrow>
   get_stripe_plan api self =
     (case plan_list_response api of
        None \<Rightarrow> Inl StripeError
      | Some plans \<Rightarrow>
          Inr (find (\<lambda>plan. Some (name_plan plan) = stripe_monthly_product_name self) plans),
      [Stripe_call Plan_list])"
  by (simp add: get_stripe_plan_def Let_def split: option.splits)

lemma subscribe_body_upgrade:
  assumes "is_downgrade self usr = Inr False" and "\<not> is_initial self"
  shows "subscribe_body api today now self usr dbs =
     (case plan_list_response api of
        None \<Rightarrow>
          \<lparr>raised = Some StripeError, user_after = usr, db_after = dbs,
           events = [Stripe_call Plan_list]\<rparr>
      | Some plans \<Rightarrow>
          (case find (\<lambda>plan. Some (name_plan plan) = stripe_monthly_product_name self) plans of
             None \<Rightarrow>
               \<lparr>raised = Some TypeError, user_after = usr, db_after = dbs,
                events = [Stripe_call Plan_list]\<rparr>
           | Some p \<Rightarrow>
               (case subscription_create_response api (stripe_customer_token usr) [id_plan p] of
                  None \<Rightarrow>
                    \<lparr>raised = Some StripeError, user_after = usr, db_after = dbs,
                     events =
                       [Stripe_call Plan_list,
                        Stripe_call
                          (Subscription_create (stripe_customer_token usr) [id_plan p] None)]\<rparr>
                | Some sub \<Rightarrow>
                    persist now self usr [''current_membership''] (Some (id_plan p))
                      (Some (id_subscription sub)) dbs
                      [Stripe_call Plan_list,
                       Stripe_call
                         (Subscription_create (stripe_customer_token usr) [id_plan p] None)])))"
  using assms
  by (simp add: subscribe_body_def get_stripe_plan_not_initial stripe_subscribe_def Let_def
      split: option.splits)

lemma history_persist:
  "history (db_after (persist now self usr fs p s dbs evs)) =
     (if users dbs (id_user usr) = None then history dbs
      else history dbs @
        [\<lparr>membership = self, user = id_user usr, created_at = now,
          stripe_subscription_id = s, stripe_plan_id = p\<rparr>])"
  by (simp add: persist_def save_def MembershipHistory_objects_create_def Let_def
      split: option.splits)

lemma db_after_subscribe:
  "db_after (subscribe api today now self usr dbs) =
     (if raised (subscribe_body api today now self usr dbs) = None
      then db_after (subscribe_body api today now self usr dbs) else dbs)"
  by (simp add: subscribe_def Let_def split: option.splits)

lemma raised_subscribe:
  "raised (subscribe api today now self usr dbs) =
   raised (subscribe_body api today now self usr dbs)"
  by (simp add: subscribe_def Let_def split: option.splits)

lemma user_after_subscribe:
  "user_after (subscribe api today now self usr dbs) =
   user_after (subscribe_body api today now self usr dbs)"
  by (simp add: subscribe_def Let_def split: option.splits)

lemma events_subscribe:
  "events (subscribe api today now self usr dbs) =
   Atomic_enter # events (subscribe_body api today now self usr dbs) @
     [if raised (subscribe_body api today now self usr dbs) = None
      then Atomic_commit else Atomic_rollback]"
  by (simp add: subscribe_def Let_def split: option.splits)

text \<open>
  C5. On the path that is neither a downgrade nor an initial assignment, if a request to the
  gateway fails (the plan listing, or the subscription creation for the plan found) then
  \<open>subscribe\<close> raises the gateway's error and commits nothing: the user object and the
  database, so the current membership and the ledger, are unchanged, and no statement was
  sent to the database. On this path a ledger entry is created only after a successful
  subscription creation, whose identifier it records.
\<close>

theorem subscribe_gateway_failure:
  assumes "is_downgrade self usr = Inr False" and "\<not> is_initial self"
    and "r = subscribe api today now self usr dbs"
  shows "(plan_list_response api = None \<or>
          (\<exists>plans p. plan_list_response api = Some plans \<and>
             find (\<lambda>plan. Some (name_plan plan) = stripe_monthly_product_name self) plans =
               Some p \<and>
             subscription_create_response api (stripe_customer_token usr) [id_plan p] = None)
          \<longrightarrow> raised r = Some StripeError \<and> user_after r = usr \<and> db_after r = dbs \<and>
              filter is_db_write (events r) = []) \<and>
         (history (db_after r) \<noteq> history dbs \<longrightarrow>
            (\<exists>plans p sub. plan_list_response api = Some plans \<and>
               find (\<lambda>plan. Some (name_plan plan) = stripe_monthly_product_name self) plans =
                 Some p \<and>
               subscription_create_response api (stripe_customer_token usr) [id_plan p] =
                 Some sub \<and>
               history (db_after r) = history dbs @
                 [\<lparr>membership = self, user = id_user usr, created_at = now,
                   stripe_subscription_id = Some (id_subscription sub),
                   stripe_plan_id = Some (id_plan p)\<rparr>]))"
proof (intro conjI impI)
  assume "plan_list_response api = None \<or>
          (\<exists>plans p. plan_list_response api = Some plans \<and>
             find (\<lambda>plan. Some (name_plan plan) = stripe_monthly_product_name self) plans =
               Some p \<and>
             subscription_create_response api (stripe_customer_token usr) [id_plan p] = None)"
  then have "\<exists>evs. subscribe_body api today now self usr dbs =
      \<lparr>raised = Some StripeError, user_after = usr, db_after = dbs, events = evs\<rparr> \<and>
      filter is_db_write evs = []"
    by (auto simp: subscribe_body_upgrade [OF assms(1,2)])
  then obtain evs where "subscribe_body api today now self usr dbs =
      \<lparr>raised = Some StripeError, user_after = usr, db_after = dbs, events = evs\<rparr>"
    and "filter is_db_write evs = []"
    by blast
  then show "raised r = Some StripeError" and "user_after r = usr" and "db_after r = dbs"
    and "filter is_db_write (events r) = []"
    by (simp_all add: assms(3) subscribe_def)
next
  assume h: "history (db_after r) \<noteq> history dbs"
  then show "\<exists>plans p sub. plan_list_response api = Some plans \<and>
               find (\<lambda>plan. Some (name_plan plan) = stripe_monthly_product_name self) plans =
                 Some p \<and>
               subscription_create_response api (stripe_customer_token usr) [id_plan p] =
                 Some sub \<and>
               history (db_after r) = history dbs @
                 [\<lparr>membership = self, user = id_user usr, created_at = now,
                   stripe_subscription_id = Some (id_subscription sub),
                   stripe_plan_id = Some (id_plan p)\<rparr>]"
    unfolding assms(3) db_after_subscribe subscribe_body_upgrade [OF assms(1,2)]
    by (auto simp: history_persist split: option.splits if_splits)
qed

theorem subscribe_gateway_failure_witness:
  "raised (subscribe failing_api sample_today 300 gold_tier sample_client sample_db) =
     Some StripeError \<and>
   user_after (subscribe failing_api sample_today 300 gold_tier sample_client sample_db) =
     sample_client \<and>
   db_after (subscribe failing_api sample_today 300 gold_tier sample_client sample_db) =
     sample_db \<and>
   raised (subscribe (sample_api\<lparr>plan_list_response := None\<rparr>) sample_today 300 gold_tier
     sample_client sample_db) = Some StripeError \<and>
   history (db_after (subscribe sample_api sample_today 300 gold_tier sample_client sample_db)) =
     history sample_db @
       [\<lparr>membership = gold_tier, user = 1, created_at = 300,
         stripe_subscription_id = Some ''sub_8'', stripe_plan_id = Some ''plan_gold''\<rparr>]"
proof -
  have a: "is_downgrade gold_tier sample_client = Inr False"
    by (simp add: is_downgrade_def sample_client_def)
  have b: "\<not> is_initial gold_tier"
    by (simp add: gold_tier_def)
  have c: "history (db_after (subscribe sample_api sample_today 300 gold_tier sample_client sample_db))
      \<noteq> history sample_db"
    by code_simp
  show ?thesis
    using subscribe_gateway_failure [OF a b refl, of failing_api sample_today 300 sample_db]
      subscribe_gateway_failure [OF a b refl, of "sample_api\<lparr>plan_list_response := None\<rparr>"
        sample_today 300 sample_db]
      subscribe_gateway_failure [OF a b refl, of sample_api sample_today 300 sample_db] c
    by (auto simp: failing_api_def sample_api_def gold_tier_def sample_client_def)
qed



lemma persist_returns:
  assumes "raised (persist now self usr fs p s dbs evs) = None"
  shows "\<exists>row. users dbs (id_user usr) = Some row \<and>
     user_after (persist now self usr fs p s dbs evs) = usr\<lparr>current_membership := Some self\<rparr> \<and>
     users (db_after (persist now self usr fs p s dbs evs)) (id_user usr) =
       Some (write_fields (usr\<lparr>current_membership := Some self\<rparr>) fs row) \<and>
     history (db_after (persist now self usr fs p s dbs evs)) = history dbs @
       [\<lparr>membership = self, user = id_user usr, created_at = now,
         stripe_subscription_id = s, stripe_plan_id = p\<rparr>]"
proof (cases "users dbs (id_user usr)")
  case None
  then show ?thesis
    using assms by (simp add: persist_unsaved)
next
  case (Some row)
  then show ?thesis
    by (simp add: persist_saved [where row = row])
qed

lemma subscribe_body_returns:
  assumes "raised (subscribe_body api today now self usr dbs) = None"
  shows "\<exists>usr1 fs p s dbs1 evs.
     subscribe_body api today now self usr dbs = persist now self usr1 fs p s dbs1 evs \<and>
     id_user usr1 = id_user usr \<and> users dbs1 = users dbs \<and> history dbs1 = history dbs \<and>
     ''current_membership'' \<in> set fs"
proof (cases "is_downgrade self usr")
  case (Inl e)
  then show ?thesis
    using assms by (simp add: subscribe_body_def)
next
  case (Inr b)
  show ?thesis
  proof (cases b)
    case True
    let ?usr1 = "usr\<lparr>last_membership_downgrade_date := Some today\<rparr>"
    let ?fs = "[''current_membership'', ''last_membership_downgrade_date'']"
    show ?thesis
    proof (cases "profile_type usr = ''freelancer''")
      case fl: True
      show ?thesis
      proof (cases "get_user_profile dbs ?usr1")
        case None
        then show ?thesis
          using assms Inr True fl by (simp add: subscribe_body_def Let_def)
      next
        case (Some profile)
        then have "subscribe_body api today now self usr dbs =
            persist now self ?usr1 ?fs None None (package_set_update profile False dbs)
              [Package_set_update (snd profile)]"
          using Inr True fl by (simp add: subscribe_body_def Let_def)
        moreover have "users (package_set_update profile False dbs) = users dbs"
          and "history (package_set_update profile False dbs) = history dbs"
          by (simp_all add: package_set_update_def)
        ultimately show ?thesis
          by (intro exI [of _ ?usr1] exI [of _ ?fs] exI [of _ None]
              exI [of _ "package_set_update profile False dbs"]
              exI [of _ "[Package_set_update (snd profile)]"]) simp
      qed
    next
      case nfl: False
      then have "subscribe_body api today now self usr dbs =
          persist now self ?usr1 ?fs None None dbs []"
        using Inr True by (simp add: subscribe_body_def Let_def)
      then show ?thesis
        by (intro exI [of _ ?usr1] exI [of _ ?fs] exI [of _ None] exI [of _ dbs]
            exI [of _ "[]"]) simp
    qed
  next
    case False
    show ?thesis
    proof (cases "is_initial self")
      case True
      then have "subscribe_body api today now self usr dbs =
          persist now self usr [''current_membership''] None None dbs []"
        using Inr False by (simp add: subscribe_body_def)
      then show ?thesis
        by (intro exI [of _ usr] exI [of _ "[''current_membership'']"] exI [of _ None]
            exI [of _ dbs] exI [of _ "[]"]) simp
    next
      case ni: False
      have d: "is_downgrade self usr = Inr False"
        using Inr False by simp
      note up = subscribe_body_upgrade [OF d ni, of api today now dbs]
      show ?thesis
      proof (cases "plan_list_response api")
        case None
        then show ?thesis
          using assms by (simp add: up)
      next
        case plans: (Some plans)
        show ?thesis
        proof (cases "find (\<lambda>plan. Some (name_plan plan) = stripe_monthly_product_name self)
            plans")
          case None
          then show ?thesis
            using assms plans by (simp add: up)
        next
          case pl: (Some pl)
          show ?thesis
          proof (cases "subscription_create_response api (stripe_customer_token usr)
              [id_plan pl]")
            case None
            then show ?thesis
              using assms plans pl by (simp add: up)
          next
            case (Some sub)
            then have "subscribe_body api today now self usr dbs =
                persist now self usr [''current_membership''] (Some (id_plan pl))
                  (Some (id_subscription sub)) dbs
                  [Stripe_call Plan_list,
                   Stripe_call
                     (Subscription_create (stripe_customer_token usr) [id_plan pl] None)]"
              using plans pl by (simp add: up)
            then show ?thesis
              by (intro exI [of _ usr] exI [of _ "[''current_membership'']"]
                  exI [of _ "Some (id_plan pl)"] exI [of _ "Some (id_subscription sub)"]
                  exI [of _ dbs]
                  exI [of _ "[Stripe_call Plan_list,
                    Stripe_call
                      (Subscription_create (stripe_customer_token usr) [id_plan pl] None)]"])
                simp
          qed
        qed
      qed
    qed
  qed
qed

text \<open>
  C6, as amended. Every call of \<open>subscribe\<close> that returns appends exactly one ledger row;
  the row's user and membership are the arguments of the call, and its \<open>created_at\<close> is the
  reading of the clock at the insertion. Afterwards the user's current membership is the
  target tier, on the object and in the row, and the ledger entry of the user inserted last
  names the same tier.
\<close>

theorem subscribe_appends_one_ledger_row:
  assumes "r = subscribe api today now self usr dbs"
    and "raised r = None"
  shows "(\<exists>h. history (db_after r) = history dbs @ [h] \<and>
            membership h = self \<and> user h = id_user usr \<and> created_at h = now) \<and>
         current_membership (user_after r) = Some self \<and>
         (\<exists>row. users (db_after r) (id_user usr) = Some row \<and>
            current_membership row = Some self) \<and>
         membership (last (filter (\<lambda>h. user h = id_user usr) (history (db_after r)))) = self"
proof -
  have ok: "raised (subscribe_body api today now self usr dbs) = None"
    using assms(1,2) by (simp add: raised_subscribe)
  then obtain usr1 fs p s dbs1 evs where
    body: "subscribe_body api today now self usr dbs = persist now self usr1 fs p s dbs1 evs"
    and same: "id_user usr1 = id_user usr" "users dbs1 = users dbs" "history dbs1 = history dbs"
    and fs: "''current_membership'' \<in> set fs"
    using subscribe_body_returns by blast
  from ok body have "raised (persist now self usr1 fs p s dbs1 evs) = None"
    by simp
  then obtain row where
    u: "user_after (persist now self usr1 fs p s dbs1 evs) = usr1\<lparr>current_membership := Some self\<rparr>"
    and d: "users (db_after (persist now self usr1 fs p s dbs1 evs)) (id_user usr1) =
       Some (write_fields (usr1\<lparr>current_membership := Some self\<rparr>) fs row)"
    and h: "history (db_after (persist now self usr1 fs p s dbs1 evs)) = history dbs1 @
       [\<lparr>membership = self, user = id_user usr1, created_at = now,
         stripe_subscription_id = s, stripe_plan_id = p\<rparr>]"
    using persist_returns by blast
  have r_db: "db_after r = db_after (persist now self usr1 fs p s dbs1 evs)"
    using ok body by (simp add: assms(1) db_after_subscribe)
  have r_user: "user_after r = user_after (persist now self usr1 fs p s dbs1 evs)"
    using body by (simp add: assms(1) user_after_subscribe)
  have 1: "history (db_after r) = history dbs @
       [\<lparr>membership = self, user = id_user usr, created_at = now,
         stripe_subscription_id = s, stripe_plan_id = p\<rparr>]"
    using h same by (simp add: r_db)
  have 2: "current_membership (user_after r) = Some self"
    by (simp add: r_user u)
  have 3: "users (db_after r) (id_user usr) =
       Some (write_fields (usr1\<lparr>current_membership := Some self\<rparr>) fs row)"
    using d same by (simp add: r_db)
  have 4: "current_membership (write_fields (usr1\<lparr>current_membership := Some self\<rparr>) fs row) =
       Some self"
    using fs by (simp add: write_fields_def)
  show ?thesis
    using 1 2 3 4 by simp
qed


theorem subscribe_appends_one_ledger_row_witness:
  "history (db_after (subscribe sample_api sample_today 300 silver_tier sample_freelancer sample_db)) =
     history sample_db @
       [\<lparr>membership = silver_tier, user = 2, created_at = 300,
         stripe_subscription_id = None, stripe_plan_id = None\<rparr>] \<and>
   current_membership
     (user_after (subscribe sample_api sample_today 300 silver_tier sample_freelancer sample_db)) =
     Some silver_tier \<and>
   membership (last (filter (\<lambda>h. user h = 2)
     (history (db_after
        (subscribe sample_api sample_today 300 silver_tier sample_freelancer sample_db))))) =
     silver_tier"
proof -
  have a: "raised (subscribe sample_api sample_today 300 silver_tier sample_freelancer sample_db) =
      None"
    by code_simp
  have c: "history (db_after
      (subscribe sample_api sample_today 300 silver_tier sample_freelancer sample_db)) =
     history sample_db @
       [\<lparr>membership = silver_tier, user = 2, created_at = 300,
         stripe_subscription_id = None, stripe_plan_id = None\<rparr>]"
    by code_simp
  show ?thesis
    using subscribe_appends_one_ledger_row [OF refl a] c
    by (simp add: sample_freelancer_def)
qed

text \<open>
  C6, as stated, fails: the claim has \<open>created_at\<close> increasing along the rows of a user.
  The stamp is the reading of the application's clock, and nothing in \<open>subscribe\<close> compares
  it with the earlier rows: a call made when the clock reads 50, for a user whose rows are
  stamped 100 and 200, returns and leaves the stamps 100, 200, 50.
\<close>

theorem subscribe_created_at_not_increasing:
  "raised (subscribe sample_api sample_today 50 silver_tier sample_freelancer sample_db) = None \<and>
   map created_at (filter (\<lambda>h. user h = 2)
     (history (db_after
        (subscribe sample_api sample_today 50 silver_tier sample_freelancer sample_db)))) =
     [100, 200, 50] \<and>
   \<not> sorted (map created_at (filter (\<lambda>h. user h = 2)
     (history (db_after
        (subscribe sample_api sample_today 50 silver_tier sample_freelancer sample_db)))))"
  by code_simp

lemma events_persist:
  "events (persist now self usr fs p s dbs evs) =
     evs @ User_save (id_user usr) fs #
       (if users dbs (id_user usr) = None then [] else [MembershipHistory_create (id_user usr)])"
  by (simp add: persist_def save_def Let_def split: option.splits)

lemma subscribe_body_events:
  "events (subscribe_body api today now self usr dbs) =
     map Stripe_call (stripe_calls (events (subscribe_body api today now self usr dbs))) @
     filter is_db_write (events (subscribe_body api today now self usr dbs)) \<and>
   (stripe_calls (events (subscribe_body api today now self usr dbs)) = [] \<or>
    stripe_calls (events (subscribe_body api today now self usr dbs)) = [Plan_list] \<or>
    (\<exists>p. stripe_calls (events (subscribe_body api today now self usr dbs)) =
       [Plan_list, Subscription_create (stripe_customer_token usr) [p] None]))"
  by (auto simp: subscribe_body_def Let_def events_persist get_stripe_plan_def
      stripe_subscribe_def split: sum.splits bool.splits option.splits prod.splits)

text \<open>
  C7, as amended. In every call of \<open>subscribe\<close> at most two requests are sent to the
  gateway: one plan listing, followed by at most one subscription creation. Every request
  comes before every statement sent to the database. The whole call, the requests included,
  runs inside one \<^verbatim>\<open>transaction.atomic\<close> block, entered first and left last, by a commit
  when the body returns and by a rollback when it raises.
\<close>

theorem subscribe_event_order:
  assumes "r = subscribe api today now self usr dbs"
  shows "events r =
       Atomic_enter # map Stripe_call (stripe_calls (events r)) @
         filter is_db_write (events r) @
         [if raised r = None then Atomic_commit else Atomic_rollback] \<and>
     length (stripe_calls (events r)) \<le> 2 \<and>
     (stripe_calls (events r) = [] \<or> stripe_calls (events r) = [Plan_list] \<or>
      (\<exists>p. stripe_calls (events r) =
         [Plan_list, Subscription_create (stripe_customer_token usr) [p] None]))"
proof -
  let ?b = "subscribe_body api today now self usr dbs"
  have e: "events r = Atomic_enter # events ?b @
      [if raised r = None then Atomic_commit else Atomic_rollback]"
    by (simp add: assms events_subscribe raised_subscribe)
  have c: "stripe_calls (events r) = stripe_calls (events ?b)"
    by (simp add: assms stripe_calls_subscribe)
  have w: "filter is_db_write (events r) = filter is_db_write (events ?b)"
    by (simp add: e)
  have o: "events ?b = map Stripe_call (stripe_calls (events ?b)) @ filter is_db_write (events ?b)"
    and k: "stripe_calls (events ?b) = [] \<or> stripe_calls (events ?b) = [Plan_list] \<or>
      (\<exists>p. stripe_calls (events ?b) =
         [Plan_list, Subscription_create (stripe_customer_token usr) [p] None])"
    using subscribe_body_events [of api today now self usr dbs] by blast+
  have l: "length (stripe_calls (events ?b)) \<le> 2"
    using k by auto
  have "events r = Atomic_enter # (map Stripe_call (stripe_calls (events ?b)) @
      filter is_db_write (events ?b)) @
      [if raised r = None then Atomic_commit else Atomic_rollback]"
    using e o by simp
  then show ?thesis
    unfolding c w using k l by simp
qed

theorem subscribe_event_order_witness:
  "events (subscribe sample_api sample_today 300 silver_tier sample_freelancer sample_db) =
     [Atomic_enter, Package_set_update 2,
      User_save 2 [''current_membership'', ''last_membership_downgrade_date''],
      MembershipHistory_create 2, Atomic_commit] \<and>
   length (stripe_calls
     (events (subscribe sample_api sample_today 300 gold_tier sample_client sample_db))) \<le> 2 \<and>
   events (subscribe failing_api sample_today 300 gold_tier sample_client sample_db) =
     [Atomic_enter, Stripe_call Plan_list,
      Stripe_call (Subscription_create (Some ''cus_1'') [''plan_gold''] None),
      Atomic_rollback]"
proof -
  have a: "events (subscribe sample_api sample_today 300 silver_tier sample_freelancer sample_db) =
     [Atomic_enter, Package_set_update 2,
      User_save 2 [''current_membership'', ''last_membership_downgrade_date''],
      MembershipHistory_create 2, Atomic_commit]"
    by code_simp
  have b: "events (subscribe failing_api sample_today 300 gold_tier sample_client sample_db) =
     [Atomic_enter, Stripe_call Plan_list,
      Stripe_call (Subscription_create (Some ''cus_1'') [''plan_gold''] None),
      Atomic_rollback]"
    by code_simp
  show ?thesis
    using subscribe_event_order [OF refl, of sample_api sample_today 300 gold_tier sample_client
        sample_db] a b
    by simp
qed

text \<open>
  C7, as stated, fails: the claim has at most one request to the gateway per call and no
  transaction open across it. A client who takes a paid tier causes two requests, both
  between the entry of the atomic block and its commit.
\<close>

theorem subscribe_two_gateway_calls_in_transaction:
  "events (subscribe sample_api sample_today 300 gold_tier sample_client sample_db) =
     [Atomic_enter, Stripe_call Plan_list,
      Stripe_call (Subscription_create (Some ''cus_1'') [''plan_gold''] None),
      User_save 1 [''current_membership''], MembershipHistory_create 1, Atomic_commit] \<and>
   \<not> length (stripe_calls
       (events (subscribe sample_api sample_today 300 gold_tier sample_client sample_db))) \<le> 1"
  by code_simp

text \<open>
  C3. For a user who takes a non-initial tier without downgrading, \<open>subscribe\<close> finds the
  plan named by the tier's monthly product name in the gateway's list, creates a subscription
  for the user's billing token against that plan, and records the identifiers in the ledger
  entry. The claim also has the subscription tagged with metadata naming it a membership
  subscription of the tier: \<open>subscribe\<close> hands that metadata to \<open>stripe_subscribe\<close>,
  which does not pass it on, so the request carries none.
\<close>

theorem stripe_subscribe_sends_no_metadata:
  "stripe_subscribe sample_api sample_client ''plan_silver''
     (Some [(''object_type'', ''membership''), (''uuid'', uuid silver_tier)]) =
     (Inr \<lparr>id_subscription = ''sub_8''\<rparr>,
      [Stripe_call (Subscription_create (Some ''cus_1'') [''plan_silver''] None)]) \<and>
   stripe_calls
     (events (subscribe sample_api sample_today 300 silver_tier sample_client sample_db)) =
     [Plan_list, Subscription_create (Some ''cus_1'') [''plan_silver''] None] \<and>
   raised (subscribe sample_api sample_today 300 silver_tier sample_client sample_db) = None \<and>
   history (db_after (subscribe sample_api sample_today 300 silver_tier sample_client sample_db)) =
     history sample_db @
       [\<lparr>membership = silver_tier, user = 1, created_at = 300,
         stripe_subscription_id = Some ''sub_8'', stripe_plan_id = Some ''plan_silver''\<rparr>]"
  by code_simp

end
